theory Spec2Isabelle
  imports Complex_Main "HOL-Library.Sublist"
begin

section \<open>Python values and the operations the plan generator uses\<close>

text \<open>
  The override data comes from \<^verbatim>\<open>json.load\<close>, so it can be any JSON value:
  \<^verbatim>\<open>None\<close>, a bool, a number, a string, a list or a dict with string keys.
  A dict is kept as the list of its items; \<open>map_of\<close> reads it.
\<close>

datatype json =
    JNull
  | JBool bool
  | JInt int
  | JFloat real
  | JStr string
  | JList "json list"
  | JDict "(string \<times> json) list"

datatype py_error = KeyError | TypeError

text \<open>Truth value of an object, as \<^verbatim>\<open>if x\<close> and \<^verbatim>\<open>x and y\<close> test it.\<close>

fun py_truthy :: "json \<Rightarrow> bool" where
  "py_truthy JNull = False"
| "py_truthy (JBool b) = b"
| "py_truthy (JInt i) = (i \<noteq> 0)"
| "py_truthy (JFloat r) = (r \<noteq> 0)"
| "py_truthy (JStr s) = (s \<noteq> [])"
| "py_truthy (JList xs) = (xs \<noteq> [])"
| "py_truthy (JDict kvs) = (kvs \<noteq> [])"

text \<open>\<^verbatim>\<open>sub in s\<close> on two strings: \<open>sub\<close> occurs in \<open>s\<close> as a contiguous piece.\<close>

fun py_str_in :: "string \<Rightarrow> string \<Rightarrow> bool" where
  "py_str_in sub [] = (sub = [])"
| "py_str_in sub (c # cs) = (prefix sub (c # cs) \<or> py_str_in sub cs)"

text \<open>
  \<^verbatim>\<open>key in x\<close> for a string \<open>key\<close>: key membership on a dict, element membership on
  a list, substring test on a string, \<^verbatim>\<open>TypeError\<close> on anything else.
\<close>

fun py_in :: "string \<Rightarrow> json \<Rightarrow> py_error + bool" where
  "py_in k (JDict kvs) = Inr (map_of kvs k \<noteq> None)"
| "py_in k (JList xs) = Inr (List.member xs (JStr k))"
| "py_in k (JStr s) = Inr (py_str_in k s)"
| "py_in k JNull = Inl TypeError"
| "py_in k (JBool b) = Inl TypeError"
| "py_in k (JInt i) = Inl TypeError"
| "py_in k (JFloat r) = Inl TypeError"

text \<open>
  \<^verbatim>\<open>x[key]\<close> for a string \<open>key\<close>: a dict raises \<^verbatim>\<open>KeyError\<close> when the key is missing;
  every other value raises \<^verbatim>\<open>TypeError\<close> (lists and strings take integer indices only,
  the rest is not subscriptable).
\<close>

fun py_getitem :: "json \<Rightarrow> string \<Rightarrow> py_error + json" where
  "py_getitem (JDict kvs) k = (case map_of kvs k of None \<Rightarrow> Inl KeyError | Some v \<Rightarrow> Inr v)"
| "py_getitem (JList xs) k = Inl TypeError"
| "py_getitem (JStr s) k = Inl TypeError"
| "py_getitem JNull k = Inl TypeError"
| "py_getitem (JBool b) k = Inl TypeError"
| "py_getitem (JInt i) k = Inl TypeError"
| "py_getitem (JFloat r) k = Inl TypeError"

text \<open>A chain of subscripts \<^verbatim>\<open>x[k1][k2]...\<close>, left to right; the first error ends it.\<close>

fun py_getitems :: "json \<Rightarrow> string list \<Rightarrow> py_error + json" where
  "py_getitems v [] = Inr v"
| "py_getitems v (k # ks) =
     (case py_getitem v k of Inl e \<Rightarrow> Inl e | Inr w \<Rightarrow> py_getitems w ks)"

section \<open>Milestone suggestions\<close>

record milestone =
  name :: string
  description :: string
  timeframe :: string

definition generate_milestone_suggestions :: "string \<Rightarrow> string \<Rightarrow> milestone list" where
  "generate_milestone_suggestions launch_type funding_status =
    (let basic_milestones =
       [\<lparr>name = ''Messaging Validation'',
           description = ''Complete customer interviews and finalize messaging'',
           timeframe = ''4 weeks before launch''\<rparr>,
          \<lparr>name = ''Content Creation Deadline'',
           description = ''Finalize all launch content and materials'',
           timeframe = ''2 weeks before launch''\<rparr>,
          \<lparr>name = ''Launch Day'',
           description = ''Official launch date'',
           timeframe = ''Launch day''\<rparr>,
          \<lparr>name = ''Post-Launch Analysis'',
           description = ''Analyze launch metrics and gather feedback'',
           timeframe = ''1 week after launch''\<rparr>];
     type_specific_milestones =
       (if py_str_in ''New Startup/Product Launch'' launch_type then
          [\<lparr>name = ''Beta Testing'',
              description = ''Complete beta testing with early users'',
              timeframe = ''3 weeks before launch''\<rparr>,
             \<lparr>name = ''Product Finalization'',
              description = ''Freeze features and finalize product'',
              timeframe = ''2 weeks before launch''\<rparr>]
        else if py_str_in ''Brand Repositioning'' launch_type then
          [\<lparr>name = ''Brand Assets Complete'',
              description = ''Finalize all new brand assets and guidelines'',
              timeframe = ''3 weeks before launch''\<rparr>,
             \<lparr>name = ''Team Alignment'',
              description = ''Ensure team is aligned on new positioning'',
              timeframe = ''2 weeks before launch''\<rparr>]
        else if py_str_in ''Funding Announcement'' launch_type then
          [\<lparr>name = ''Press Release Draft'',
              description = ''Create first draft of funding press release'',
              timeframe = ''3 weeks before launch''\<rparr>,
             \<lparr>name = ''Investor Coordination'',
              description = ''Finalize coordination with investors on announcement'',
              timeframe = ''2 weeks before launch''\<rparr>]
        else if py_str_in ''Partnership'' launch_type then
          [\<lparr>name = ''Partnership Agreement'',
              description = ''Finalize all partnership terms and agreements'',
              timeframe = ''3 weeks before launch''\<rparr>,
             \<lparr>name = ''Joint Marketing Plan'',
              description = ''Finalize joint marketing plan with partner'',
              timeframe = ''2 weeks before launch''\<rparr>]
        else []);
     funding_specific_milestones =
       (if py_str_in ''Bootstrapping'' funding_status then
          [\<lparr>name = ''Resource Allocation'',
              description = ''Finalize budget and resource allocation for launch'',
              timeframe = ''3 weeks before launch''\<rparr>]
        else if py_str_in ''under $1M'' funding_status then
          [\<lparr>name = ''Growth Metrics Setup'',
              description = ''Set up tracking for key growth metrics'',
              timeframe = ''2 weeks before launch''\<rparr>]
        else if py_str_in ''$1M-$3M'' funding_status then
          [\<lparr>name = ''PR Firm Briefing'',
              description = ''Brief PR firm on launch strategy and timeline'',
              timeframe = ''4 weeks before launch''\<rparr>,
             \<lparr>name = ''Media Outreach'',
              description = ''Begin outreach to media contacts'',
              timeframe = ''2 weeks before launch''\<rparr>]
        else if py_str_in ''$3M+'' funding_status then
          [\<lparr>name = ''Marketing Campaign Launch'',
              description = ''Launch pre-launch marketing campaign'',
              timeframe = ''4 weeks before launch''\<rparr>,
             \<lparr>name = ''Industry Event Planning'',
              description = ''Finalize plans for launch event'',
              timeframe = ''3 weeks before launch''\<rparr>]
        else [])
     in basic_milestones @ type_specific_milestones @ funding_specific_milestones)"

section \<open>Strategy and next-step resolution\<close>

text \<open>The hardcoded table of \<^verbatim>\<open>get_standard_strategies\<close> and its default list.\<close>

definition strategies :: json where
  "strategies =
   JDict
        [(''New Startup/Product Launch'',
          JDict
            [(''Bootstrapping (No external funding)'',
              JDict
                [(''Get Users or Customers'',
                  JList
                    [JStr ''Focus on founder-led storytelling through guest podcasts and social content'',
                     JStr ''Create a limited beta program with exclusive perks to drive early adoption'',
                     JStr ''Build direct relationships with early users for feedback and testimonials'']),
                 (''Attract Investors'',
                  JList
                    [JStr ''Document your traction journey publicly to showcase momentum'',
                     JStr ''Create case studies showing early customer impact'',
                     JStr ''Target niche industry events where investors in your space gather'']),
                 (''Build Press & Awareness'',
                  JList
                    [JStr ''Craft a compelling founder story that ties to current trends'',
                     JStr ''Pitch to industry-specific publications rather than mainstream media'',
                     JStr ''Create shareable content that showcases your unique approach'']),
                 (''Create Industry Influence'',
                  JList
                    [JStr ''Start a focused content series solving key problems in your industry'',
                     JStr ''Join relevant communities as a contributor, not just a promoter'',
                     JStr ''Collaborate with complementary startups for wider reach''])]),
             (''Raised under $1M'',
              JDict
                [(''Get Users or Customers'',
                  JList
                    [JStr ''Run targeted ad experiments to identify high-converting messages'',
                     JStr ''Create an exclusive waitlist with referral incentives'',
                     JStr ''Partner with complementary products for shared launches'']),
                 (''Attract Investors'',
                  JList
                    [JStr ''Build a data-driven pitch showing early traction metrics'',
                     JStr ''Create investor-specific content demonstrating market understanding'',
                     JStr ''Get warm introductions through strategic advisory relationships'']),
                 (''Build Press & Awareness'',
                  JList
                    [JStr ''Position your funding as validation for a larger trend story'',
                     JStr ''Create data-driven content that journalists can easily reference'',
                     JStr ''Build relationships with 3-5 key reporters in your space'']),
                 (''Create Industry Influence'',
                  JList
                    [JStr ''Participate in industry panels and speaking opportunities'',
                     JStr ''Launch a small but high-quality thought leadership publication'',
                     JStr ''Create a community initiative that positions you as a connector''])]),
             (''Raised $1M-$3M'',
              JDict
                [(''Get Users or Customers'',
                  JList
                    [JStr ''Scale successful acquisition channels with increased ad spend'',
                     JStr ''Implement a full-featured referral program with tiered rewards'',
                     JStr ''Execute co-marketing campaigns with established partners'']),
                 (''Attract Investors'',
                  JList
                    [JStr ''Create quarterly investor updates showcasing growth metrics'',
                     JStr ''Secure strategic advisors who can connect you to your next round'',
                     JStr ''Generate press coverage highlighting your unique market position'']),
                 (''Build Press & Awareness'',
                  JList
                    [JStr ''Hire a specialized PR firm for a coordinated media campaign'',
                     JStr ''Create a newsworthy data report about your industry'',
                     JStr ''Launch a creative campaign designed for social sharing'']),
                 (''Create Industry Influence'',
                  JList
                    [JStr ''Host industry roundtables with key decision-makers'',
                     JStr ''Launch an authoritative content platform or podcast'',
                     JStr ''Create an industry index or report that becomes a reference point''])]),
             (''Raised $3M+'',
              JDict
                [(''Get Users or Customers'',
                  JList
                    [JStr ''Implement omnichannel marketing with consistent brand messaging'',
                     JStr ''Launch high-production value content series'',
                     JStr ''Execute high-visibility partnerships with market leaders'']),
                 (''Attract Investors'',
                  JList
                    [JStr ''Position your company as category-defining through thought leadership'',
                     JStr ''Host exclusive investor-focused events showcasing your vision'',
                     JStr ''Generate tier-one press coverage highlighting growth metrics'']),
                 (''Build Press & Awareness'',
                  JList
                    [JStr ''Execute a comprehensive PR strategy across multiple channels'',
                     JStr ''Create viral-optimized content campaigns with significant budget'',
                     JStr ''Sponsor or create signature industry events'']),
                 (''Create Industry Influence'',
                  JList
                    [JStr ''Position your CEO as an industry visionary through speaking and publishing'',
                     JStr ''Create a proprietary methodology or framework for your industry'',
                     JStr ''Launch a foundation or initiative addressing industry-wide challenges''])])]),
         (''Brand Repositioning (Rebrand or Pivot)'',
          JDict
            [(''Bootstrapping (No external funding)'',
              JDict
                [(''Get Users or Customers'',
                  JList
                    [JStr ''Craft a clear narrative explaining the 'why' behind your repositioning'',
                     JStr ''Create before/after content showing the evolution'',
                     JStr ''Personally reach out to existing customers with special loyalty offers'']),
                 (''Attract Investors'',
                  JList
                    [JStr ''Frame your repositioning as strategic market adaptation'',
                     JStr ''Show early validation metrics from the new direction'',
                     JStr ''Create case studies showing the problem your new positioning solves'']),
                 (''Build Press & Awareness'',
                  JList
                    [JStr ''Pitch your pivot as a response to market insights'',
                     JStr ''Create visual assets that tell your transformation story'',
                     JStr ''Leverage customer testimonials to validate the change'']),
                 (''Create Industry Influence'',
                  JList
                    [JStr ''Document your repositioning journey as a learning resource'',
                     JStr ''Position the change as thought leadership on where the market is headed'',
                     JStr ''Host discussions around the challenges your new position addresses''])])]),
         (''Funding Announcement'',
          JDict
            [(''Raised under $1M'',
              JDict
                [(''Get Users or Customers'',
                  JList
                    [JStr ''Frame your funding as validation of your customer-first approach'',
                     JStr ''Create special offers for customers who join during your funding momentum'',
                     JStr ''Use funding press to drive traffic to high-converting landing pages'']),
                 (''Attract Investors'',
                  JList
                    [JStr ''Position this round as the foundation for a bigger vision'',
                     JStr ''Create investor-specific content showcasing your capital efficiency'',
                     JStr ''Document key milestones achieved with minimal funding'']),
                 (''Build Press & Awareness'',
                  JList
                    [JStr ''Craft a funding announcement that tells a larger market story'',
                     JStr ''Secure quotes from investors explaining why they invested'',
                     JStr ''Create a funding FAQ addressing common questions'']),
                 (''Create Industry Influence'',
                  JList
                    [JStr ''Share insights about your fundraising process to help other founders'',
                     JStr ''Host a small event bringing together investors and industry peers'',
                     JStr ''Launch a thought leadership piece about your industry's funding landscape''])])]),
         (''Major Partnership or Publicity Push'',
          JDict
            [(''Bootstrapping (No external funding)'',
              JDict
                [(''Get Users or Customers'',
                  JList
                    [JStr ''Design partnership terms that prioritize customer acquisition'',
                     JStr ''Create exclusive offers for your partner's audience'',
                     JStr ''Focus on partners with highly engaged audiences rather than size'']),
                 (''Attract Investors'',
                  JList
                    [JStr ''Structure partnerships that demonstrate market validation'',
                     JStr ''Secure case studies from partners highlighting your value'',
                     JStr ''Use partnerships to generate data points for investor pitches'']),
                 (''Build Press & Awareness'',
                  JList
                    [JStr ''Create joint press releases with compelling narrative hooks'',
                     JStr ''Design visual content that both partners can share'',
                     JStr ''Host a joint webinar or event to showcase the partnership'']),
                 (''Create Industry Influence'',
                  JList
                    [JStr ''Co-create thought leadership content with your partner'',
                     JStr ''Launch a joint research initiative or industry report'',
                     JStr ''Create a partner advisory board for ongoing collaboration''])])])]"

definition default_strategies :: json where
  "default_strategies =
   JList
        [JStr ''Create a compelling story that connects your mission to customer needs'',
         JStr ''Focus on 1-2 high-impact marketing channels that align with your resources'',
         JStr ''Build relationships with influencers and partners in your industry'']"

definition get_standard_strategies :: "string \<Rightarrow> string \<Rightarrow> string \<Rightarrow> json \<Rightarrow> py_error + json" where
  "get_standard_strategies launch_type funding_status primary_goal external_strategies =
    (let hardcoded =
       (case py_getitems strategies [launch_type, funding_status, primary_goal] of
          Inr v \<Rightarrow> Inr v
        | Inl KeyError \<Rightarrow> Inr default_strategies
        | Inl TypeError \<Rightarrow> Inl TypeError)
     in if py_truthy external_strategies then
          (case py_in ''launch_strategies'' external_strategies of
             Inl e \<Rightarrow> Inl e
           | Inr False \<Rightarrow> hardcoded
           | Inr True \<Rightarrow>
               (case py_getitems external_strategies
                       [''launch_strategies'', launch_type, funding_status, primary_goal] of
                  Inr v \<Rightarrow> Inr v
                | Inl KeyError \<Rightarrow> hardcoded
                | Inl TypeError \<Rightarrow> Inl TypeError))
        else hardcoded)"

text \<open>The hardcoded table of \<^verbatim>\<open>get_standard_next_steps\<close> and its default list.\<close>

definition next_steps :: json where
  "next_steps =
   JDict
        [(''Bootstrapping (No external funding)'',
          JDict
            [(''Yes, we have an engaged community'',
              JDict
                [(''Scaling & repeatable traction'',
                  JList
                    [JStr ''1. Analyze which launch channels delivered highest ROI'',
                     JStr ''2. Document repeatable processes for your best-performing channels'',
                     JStr ''3. Create a lean content calendar focused on high-conversion topics'']),
                 (''Investor relations & positioning for next raise'',
                  JList
                    [JStr ''1. Build a simple investor update template highlighting key metrics'',
                     JStr ''2. Identify 10-15 potential angels or micro-VCs aligned with your vision'',
                     JStr ''3. Create a basic pitch deck focused on traction and capital efficiency'']),
                 (''Optimizing based on customer feedback'',
                  JList
                    [JStr ''1. Implement a simple feedback collection system'',
                     JStr ''2. Identify the top 3 points of friction in your current experience'',
                     JStr ''3. Create a weekly iteration schedule focused on quick wins'']),
                 (''Sustaining press & industry visibility'',
                  JList
                    [JStr ''1. Develop a simple PR calendar with monthly goals'',
                     JStr ''2. Create a content repurposing system to maximize reach'',
                     JStr ''3. Join 3-5 communities where your audience gathers''])])])]"

definition default_next_steps :: json where
  "default_next_steps =
   JList
        [JStr ''1. Document what worked and what didn't in your launch'',
         JStr ''2. Focus on optimizing your best-performing channel'',
         JStr ''3. Create a 30-day action plan based on initial results'']"

definition get_standard_next_steps :: "string \<Rightarrow> string \<Rightarrow> string \<Rightarrow> json \<Rightarrow> py_error + json" where
  "get_standard_next_steps funding_status audience_readiness post_launch_priority external_strategies =
    (let hardcoded =
       (case py_getitems next_steps [funding_status, audience_readiness, post_launch_priority] of
          Inr v \<Rightarrow> Inr v
        | Inl KeyError \<Rightarrow> Inr default_next_steps
        | Inl TypeError \<Rightarrow> Inl TypeError)
     in if py_truthy external_strategies then
          (case py_in ''next_steps'' external_strategies of
             Inl e \<Rightarrow> Inl e
           | Inr False \<Rightarrow> hardcoded
           | Inr True \<Rightarrow>
               (case py_getitems external_strategies
                       [''next_steps'', funding_status, audience_readiness, post_launch_priority] of
                  Inr v \<Rightarrow> Inr v
                | Inl KeyError \<Rightarrow> hardcoded
                | Inl TypeError \<Rightarrow> Inl TypeError))
        else hardcoded)"

section \<open>The AI enhancer\<close>

record form_data =
  fd_first_name :: string
  fd_startup_name :: string
  fd_email :: string
  fd_messaging_tested :: string
  fd_launch_type :: string
  fd_funding_status :: string
  fd_primary_goal :: string
  fd_audience_readiness :: string
  fd_post_launch_priority :: string
  fd_industry :: "string option"

text \<open>
  Modelled from the spec: the module \<^verbatim>\<open>utils/ai_generator.py\<close> is missing. What one call
  of the external generation service does: it raises, it times out, or it returns a value.
\<close>

datatype ai_outcome = AIRaises | AITimesOut | AIReturns json

text \<open>
  Modelled from the spec: the shape the enhancer expects where a list is generated
  (strategies, next steps): a non-empty list of strings.
\<close>

fun is_str :: "json \<Rightarrow> bool" where
  "is_str (JStr s) = True"
| "is_str v = False"

fun well_formed_list :: "json \<Rightarrow> bool" where
  "well_formed_list (JList xs) = (xs \<noteq> [] \<and> list_all is_str xs)"
| "well_formed_list v = False"

text \<open>
  Modelled from the spec: the shape the enhancer expects where a single string is generated
  (messaging advice): a non-empty string.
\<close>

fun well_formed_text :: "json \<Rightarrow> bool" where
  "well_formed_text (JStr s) = (s \<noteq> [])"
| "well_formed_text v = False"

text \<open>
  Modelled from the spec: \<^verbatim>\<open>AIEnhancer.enhance\<close>. A well-formed, non-empty result replaces
  the fallback entirely; any other outcome gives the fallback unchanged.
\<close>

fun enhance :: "(json \<Rightarrow> bool) \<Rightarrow> ai_outcome \<Rightarrow> json \<Rightarrow> json" where
  "enhance well_formed (AIReturns v) fallback = (if well_formed v then v else fallback)"
| "enhance well_formed AIRaises fallback = fallback"
| "enhance well_formed AITimesOut fallback = fallback"


text \<open>
  Modelled from the spec: the missing module as \<^verbatim>\<open>generate_launch_plan\<close> sees it: what
  the service answers to each of the three calls, and the canned advice sentences keyed by
  \<^verbatim>\<open>messaging_tested\<close>.
\<close>

record ai_generator =
  strategies_call :: "form_data \<Rightarrow> ai_outcome"
  next_steps_call :: "form_data \<Rightarrow> ai_outcome"
  messaging_call :: "string \<Rightarrow> ai_outcome"
  canned_advice :: "string \<Rightarrow> string"

text \<open>Modelled from the spec: \<^verbatim>\<open>generate_ai_strategies\<close>, missing with its module.\<close>

definition generate_ai_strategies :: "ai_generator \<Rightarrow> form_data \<Rightarrow> json \<Rightarrow> json" where
  "generate_ai_strategies ai form_data fallback_strategies =
     enhance well_formed_list (strategies_call ai form_data) fallback_strategies"

text \<open>Modelled from the spec: \<^verbatim>\<open>generate_ai_next_steps\<close>, missing with its module.\<close>

definition generate_ai_next_steps :: "ai_generator \<Rightarrow> form_data \<Rightarrow> json \<Rightarrow> json" where
  "generate_ai_next_steps ai form_data fallback_steps =
     enhance well_formed_list (next_steps_call ai form_data) fallback_steps"

text \<open>Modelled from the spec: \<^verbatim>\<open>generate_ai_messaging_advice\<close>, missing with its module.\<close>

definition generate_ai_messaging_advice :: "ai_generator \<Rightarrow> string \<Rightarrow> json" where
  "generate_ai_messaging_advice ai messaging_tested =
     enhance well_formed_text (messaging_call ai messaging_tested)
       (JStr (canned_advice ai messaging_tested))"

text \<open>
  Modelled from the spec: a service whose every call raises, and one whose every call
  returns an empty list; both leave every fallback in place.
\<close>

definition raising_ai :: ai_generator where
  "raising_ai =
     \<lparr>strategies_call = (\<lambda>form_data. AIRaises),
      next_steps_call = (\<lambda>form_data. AIRaises),
      messaging_call = (\<lambda>messaging_tested. AIRaises),
      canned_advice = (\<lambda>messaging_tested. ''Test your messaging with customers'')\<rparr>"


section \<open>Plan assembly\<close>

record launch_summary =
  ls_launch_type :: string
  ls_funding_status :: string
  ls_primary_goal :: string

record plan =
  plan_first_name :: string
  plan_startup_name :: string
  plan_messaging_advice :: json
  plan_launch_summary :: launch_summary
  plan_recommended_strategies :: json
  plan_next_steps :: json
  plan_milestone_suggestions :: "milestone list"

text \<open>
  The form data is the dict of the form with all its keys set and string selections; the
  calls into the missing module take the module as the argument \<open>ai\<close>. An error of one
  of the two resolvers ends the call, in the order of the source.
\<close>

definition generate_launch_plan :: "ai_generator \<Rightarrow> form_data \<Rightarrow> json \<Rightarrow> py_error + plan" where
  "generate_launch_plan ai form_data external_strategies =
    (let messaging_advice = generate_ai_messaging_advice ai (fd_messaging_tested form_data) in
     case get_standard_strategies (fd_launch_type form_data) (fd_funding_status form_data)
            (fd_primary_goal form_data) external_strategies of
       Inl e \<Rightarrow> Inl e
     | Inr standard_strategies \<Rightarrow>
        (let recommended_strategies =
               generate_ai_strategies ai form_data standard_strategies in
         case get_standard_next_steps (fd_funding_status form_data)
                (fd_audience_readiness form_data) (fd_post_launch_priority form_data)
                external_strategies of
           Inl e \<Rightarrow> Inl e
         | Inr standard_next_steps \<Rightarrow>
            (let steps = generate_ai_next_steps ai form_data standard_next_steps;
                 milestone_suggestions =
                   generate_milestone_suggestions (fd_launch_type form_data)
                     (fd_funding_status form_data)
             in Inr \<lparr>plan_first_name = fd_first_name form_data,
                     plan_startup_name = fd_startup_name form_data,
                     plan_messaging_advice = messaging_advice,
                     plan_launch_summary =
                       \<lparr>ls_launch_type = fd_launch_type form_data,
                        ls_funding_status = fd_funding_status form_data,
                        ls_primary_goal = fd_primary_goal form_data\<rparr>,
                     plan_recommended_strategies = recommended_strategies,
                     plan_next_steps = steps,
                     plan_milestone_suggestions = milestone_suggestions\<rparr>)))"

section \<open>The milestone rules as the design states them\<close>

text \<open>
  The design describes the milestones as a fixed base sequence and two rule sets, each an
  ordered list of a marker substring with the milestones it selects. The definitions of
  this section follow that description; they are compared with the code below.
\<close>

definition base_sequence :: "milestone list" where
  "base_sequence =
     [\<lparr>name = ''Messaging Validation'',
         description = ''Complete customer interviews and finalize messaging'',
         timeframe = ''4 weeks before launch''\<rparr>,
        \<lparr>name = ''Content Creation Deadline'',
         description = ''Finalize all launch content and materials'',
         timeframe = ''2 weeks before launch''\<rparr>,
        \<lparr>name = ''Launch Day'',
         description = ''Official launch date'',
         timeframe = ''Launch day''\<rparr>,
        \<lparr>name = ''Post-Launch Analysis'',
         description = ''Analyze launch metrics and gather feedback'',
         timeframe = ''1 week after launch''\<rparr>]"

definition launch_type_rules :: "(string \<times> milestone list) list" where
  "launch_type_rules =
     [(''New Startup/Product Launch'',
       [\<lparr>name = ''Beta Testing'',
           description = ''Complete beta testing with early users'',
           timeframe = ''3 weeks before launch''\<rparr>,
          \<lparr>name = ''Product Finalization'',
           description = ''Freeze features and finalize product'',
           timeframe = ''2 weeks before launch''\<rparr>]),
      (''Brand Repositioning'',
       [\<lparr>name = ''Brand Assets Complete'',
           description = ''Finalize all new brand assets and guidelines'',
           timeframe = ''3 weeks before launch''\<rparr>,
          \<lparr>name = ''Team Alignment'',
           description = ''Ensure team is aligned on new positioning'',
           timeframe = ''2 weeks before launch''\<rparr>]),
      (''Funding Announcement'',
       [\<lparr>name = ''Press Release Draft'',
           description = ''Create first draft of funding press release'',
           timeframe = ''3 weeks before launch''\<rparr>,
          \<lparr>name = ''Investor Coordination'',
           description = ''Finalize coordination with investors on announcement'',
           timeframe = ''2 weeks before launch''\<rparr>]),
      (''Partnership'',
       [\<lparr>name = ''Partnership Agreement'',
           description = ''Finalize all partnership terms and agreements'',
           timeframe = ''3 weeks before launch''\<rparr>,
          \<lparr>name = ''Joint Marketing Plan'',
           description = ''Finalize joint marketing plan with partner'',
           timeframe = ''2 weeks before launch''\<rparr>])]"

definition funding_status_rules :: "(string \<times> milestone list) list" where
  "funding_status_rules =
     [(''Bootstrapping'',
       [\<lparr>name = ''Resource Allocation'',
           description = ''Finalize budget and resource allocation for launch'',
           timeframe = ''3 weeks before launch''\<rparr>]),
      (''under $1M'',
       [\<lparr>name = ''Growth Metrics Setup'',
           description = ''Set up tracking for key growth metrics'',
           timeframe = ''2 weeks before launch''\<rparr>]),
      (''$1M-$3M'',
       [\<lparr>name = ''PR Firm Briefing'',
           description = ''Brief PR firm on launch strategy and timeline'',
           timeframe = ''4 weeks before launch''\<rparr>,
          \<lparr>name = ''Media Outreach'',
           description = ''Begin outreach to media contacts'',
           timeframe = ''2 weeks before launch''\<rparr>]),
      (''$3M+'',
       [\<lparr>name = ''Marketing Campaign Launch'',
           description = ''Launch pre-launch marketing campaign'',
           timeframe = ''4 weeks before launch''\<rparr>,
          \<lparr>name = ''Industry Event Planning'',
           description = ''Finalize plans for launch event'',
           timeframe = ''3 weeks before launch''\<rparr>])]"

text \<open>The milestones of the first rule whose marker occurs in the label; none if no marker does.\<close>

fun select_by_substring :: "(string \<times> milestone list) list \<Rightarrow> string \<Rightarrow> milestone list" where
  "select_by_substring [] label = []"
| "select_by_substring ((marker, ms) # rules) label =
     (if py_str_in marker label then ms else select_by_substring rules label)"

definition build_milestones :: "string \<Rightarrow> string \<Rightarrow> milestone list" where
  "build_milestones launch_type funding_status =
     base_sequence @ select_by_substring launch_type_rules launch_type
       @ select_by_substring funding_status_rules funding_status"

section \<open>Shapes of the override data\<close>

text \<open>
  Every value that the subscript chain along \<open>ks\<close> reaches before its last key is a dict:
  the chain can miss a key, but it never subscripts a value that is not a mapping.
\<close>

fun mapping_along :: "json \<Rightarrow> string list \<Rightarrow> bool" where
  "mapping_along v [] = True"
| "mapping_along (JDict kvs) (k # ks) =
     (case map_of kvs k of None \<Rightarrow> True | Some w \<Rightarrow> mapping_along w ks)"
| "mapping_along v (k # ks) = False"

text \<open>A list with at least one element.\<close>

fun nonempty_list :: "json \<Rightarrow> bool" where
  "nonempty_list (JList xs) = (xs \<noteq> [])"
| "nonempty_list v = False"

text \<open>The leaf that the subscript chain along \<open>ks\<close> finds, if it finds one, is a non-empty list.\<close>

definition leaf_nonempty :: "json \<Rightarrow> string list \<Rightarrow> bool" where
  "leaf_nonempty v ks = (case py_getitems v ks of Inr leaf \<Rightarrow> nonempty_list leaf | Inl e \<Rightarrow> True)"

text \<open>All values \<open>n\<close> levels below the top of a nested dict satisfy \<open>P\<close>, and the levels above are dicts.\<close>

fun all_leaves :: "nat \<Rightarrow> (json \<Rightarrow> bool) \<Rightarrow> json \<Rightarrow> bool" where
  "all_leaves 0 P v = P v"
| "all_leaves (Suc n) P (JDict kvs) = list_all (\<lambda>kv. all_leaves n P (snd kv)) kvs"
| "all_leaves (Suc n) P v = False"

section \<open>Sample inputs\<close>

text \<open>
  A filled-in form, an override file that covers one launch type and holds one empty leaf,
  and two override files whose table stops one level early.
\<close>


definition example_form :: form_data where
  "example_form =
     \<lparr>fd_first_name = ''Ada'',
      fd_startup_name = ''Engines'',
      fd_email = ''ada@example.com'',
      fd_messaging_tested = ''Yes'',
      fd_launch_type = ''New Startup/Product Launch'',
      fd_funding_status = ''Bootstrapping (No external funding)'',
      fd_primary_goal = ''Get Users or Customers'',
      fd_audience_readiness = ''Yes, we have an engaged community'',
      fd_post_launch_priority = ''Scaling & repeatable traction'',
      fd_industry = None\<rparr>"

definition override_by_goal :: "(string \<times> json) list" where
  "override_by_goal =
     [(''Get Users or Customers'', JList [JStr ''Ship the beta'']),
      (''Attract Investors'', JList [])]"

definition override_by_funding :: "(string \<times> json) list" where
  "override_by_funding = [(''Bootstrapping (No external funding)'', JDict override_by_goal)]"

definition override_by_type :: "(string \<times> json) list" where
  "override_by_type = [(''New Startup/Product Launch'', JDict override_by_funding)]"

definition override_top :: "(string \<times> json) list" where
  "override_top = [(''launch_strategies'', JDict override_by_type)]"

definition override_example :: json where
  "override_example = JDict override_top"

definition two_level_override :: json where
  "two_level_override =
     JDict [(''launch_strategies'',
       JDict [(''New Startup/Product Launch'', JList [JStr ''Ship the beta''])])]"

definition investor_form :: form_data where
  "investor_form = example_form\<lparr>fd_primary_goal := ''Attract Investors''\<rparr>"

definition list_under_type_override :: json where
  "list_under_type_override =
     JDict [(''launch_strategies'',
       JDict [(''Brand Repositioning (Rebrand or Pivot)'', JList [JStr ''Tell the story''])])]"

section \<open>Python primitives\<close>

text \<open>
The substring test is the contiguous-sublist relation of the list library.
\<close>

lemma py_str_in_sublist: "py_str_in sub s \<longleftrightarrow> sublist sub s"
  by (induction s) (simp_all add: sublist_Cons_right)

section \<open>Subscript chains on nested dicts\<close>

lemma py_getitems_all_leaves:
  "all_leaves (length ks) P v \<Longrightarrow> py_getitems v ks = Inr w \<Longrightarrow> P w"
proof (induction ks arbitrary: v)
  case Nil
  then show ?case by simp
next
  case (Cons k ks)
  from Cons.prems(1) obtain kvs where v: "v = JDict kvs"
    by (cases v) simp_all
  from Cons.prems(2) v obtain u where u: "map_of kvs k = Some u" "py_getitems u ks = Inr w"
    by (auto split: option.splits)
  from u(1) have "(k, u) \<in> set kvs" by (rule map_of_SomeD)
  with Cons.prems(1) v have "all_leaves (length ks) P u"
    by (auto simp: list_all_iff)
  then show ?case using u(2) by (rule Cons.IH)
qed

lemma py_getitems_no_TypeError:
  "all_leaves (length ks) P v \<Longrightarrow> py_getitems v ks \<noteq> Inl TypeError"
proof (induction ks arbitrary: v)
  case Nil
  then show ?case by simp
next
  case (Cons k ks)
  from Cons.prems(1) obtain kvs where v: "v = JDict kvs"
    by (cases v) simp_all
  show ?case
  proof (cases "map_of kvs k")
    case None
    with v show ?thesis by simp
  next
    case (Some u)
    then have "(k, u) \<in> set kvs" by (rule map_of_SomeD)
    with Cons.prems(1) v have "all_leaves (length ks) P u"
      by (auto simp: list_all_iff)
    then have "py_getitems u ks \<noteq> Inl TypeError" by (rule Cons.IH)
    with v Some show ?thesis by simp
  qed
qed

lemma mapping_along_getitems:
  "mapping_along v ks \<Longrightarrow> py_getitems v ks \<noteq> Inl TypeError"
proof (induction v ks rule: mapping_along.induct)
  case (1 v)
  then show ?case by simp
next
  case (2 kvs k ks)
  then show ?case by (auto split: option.splits)
qed simp_all

lemma falsy_getitems: "\<not> py_truthy ext \<Longrightarrow> \<exists>e. py_getitems ext (k # ks) = Inl e"
  by (cases ext) simp_all

lemma tier_total:
  "r \<noteq> Inl TypeError \<Longrightarrow>
   (case r of Inr v \<Rightarrow> Inr v | Inl KeyError \<Rightarrow> Inr d | Inl TypeError \<Rightarrow> Inl TypeError) =
     (Inr (case r of Inr v \<Rightarrow> v | Inl e \<Rightarrow> d) :: py_error + json)"
  by (cases r) (auto split: py_error.splits)

section \<open>The hardcoded tables\<close>

text \<open>
Both tables are three levels of dicts over non-empty lists.
\<close>

lemma strategies_leaves: "all_leaves (Suc (Suc (Suc 0))) nonempty_list strategies"
  by (simp add: strategies_def)

lemma next_steps_leaves: "all_leaves (Suc (Suc (Suc 0))) nonempty_list next_steps"
  by (simp add: next_steps_def)

lemma strategies_no_TypeError: "py_getitems strategies [a, b, c] \<noteq> Inl TypeError"
  using py_getitems_no_TypeError [of "[a, b, c]" nonempty_list strategies] strategies_leaves
  by simp

lemma next_steps_no_TypeError: "py_getitems next_steps [a, b, c] \<noteq> Inl TypeError"
  using py_getitems_no_TypeError [of "[a, b, c]" nonempty_list next_steps] next_steps_leaves
  by simp

lemma hardcoded_strategies_nonempty:
  "nonempty_list (case py_getitems strategies [a, b, c] of
                    Inr leaf \<Rightarrow> leaf | Inl e \<Rightarrow> default_strategies)"
proof (cases "py_getitems strategies [a, b, c]")
  case (Inl e)
  then show ?thesis by (simp add: default_strategies_def del: py_getitems.simps)
next
  case (Inr leaf)
  with py_getitems_all_leaves [of "[a, b, c]" nonempty_list strategies leaf] strategies_leaves
  show ?thesis by (simp del: py_getitems.simps)
qed

lemma hardcoded_next_steps_nonempty:
  "nonempty_list (case py_getitems next_steps [a, b, c] of
                    Inr leaf \<Rightarrow> leaf | Inl e \<Rightarrow> default_next_steps)"
proof (cases "py_getitems next_steps [a, b, c]")
  case (Inl e)
  then show ?thesis by (simp add: default_next_steps_def del: py_getitems.simps)
next
  case (Inr leaf)
  with py_getitems_all_leaves [of "[a, b, c]" nonempty_list next_steps leaf] next_steps_leaves
  show ?thesis by (simp del: py_getitems.simps)
qed

section \<open>The three tiers of the resolvers\<close>

lemma get_standard_strategies_tiers:
  assumes "\<not> py_truthy ext \<or> mapping_along ext [''launch_strategies'', lt, fs, pg]"
  shows "get_standard_strategies lt fs pg ext =
     Inr (case py_getitems ext [''launch_strategies'', lt, fs, pg] of
            Inr leaf \<Rightarrow> leaf
          | Inl e \<Rightarrow> (case py_getitems strategies [lt, fs, pg] of
                        Inr leaf \<Rightarrow> leaf
                      | Inl e' \<Rightarrow> default_strategies))"
proof (cases "py_truthy ext")
  case False
  with falsy_getitems obtain e where "py_getitems ext [''launch_strategies'', lt, fs, pg] = Inl e"
    by blast
  with False show ?thesis
    by (simp add: get_standard_strategies_def tier_total [OF strategies_no_TypeError]
          del: py_getitems.simps)
next
  case True
  with assms have m: "mapping_along ext [''launch_strategies'', lt, fs, pg]" by simp
  then obtain kvs where ext: "ext = JDict kvs" by (cases ext) simp_all
  from m have nt: "py_getitems ext [''launch_strategies'', lt, fs, pg] \<noteq> Inl TypeError"
    by (rule mapping_along_getitems)
  show ?thesis
  proof (cases "map_of kvs ''launch_strategies''")
    case None
    with ext have "py_in ''launch_strategies'' ext = Inr False"
      and "py_getitems ext [''launch_strategies'', lt, fs, pg] = Inl KeyError"
      by simp_all
    with True show ?thesis
      by (simp add: get_standard_strategies_def tier_total [OF strategies_no_TypeError]
            del: py_getitems.simps)
  next
    case (Some t)
    with ext have "py_in ''launch_strategies'' ext = Inr True" by simp
    with True show ?thesis
      unfolding get_standard_strategies_def Let_def tier_total [OF strategies_no_TypeError]
      using nt
      by (cases "py_getitems ext [''launch_strategies'', lt, fs, pg]")
         (auto split: py_error.splits simp del: py_getitems.simps)
  qed
qed

lemma get_standard_next_steps_tiers:
  assumes "\<not> py_truthy ext \<or> mapping_along ext [''next_steps'', fs, ar, pp]"
  shows "get_standard_next_steps fs ar pp ext =
     Inr (case py_getitems ext [''next_steps'', fs, ar, pp] of
            Inr leaf \<Rightarrow> leaf
          | Inl e \<Rightarrow> (case py_getitems next_steps [fs, ar, pp] of
                        Inr leaf \<Rightarrow> leaf
                      | Inl e' \<Rightarrow> default_next_steps))"
proof (cases "py_truthy ext")
  case False
  with falsy_getitems obtain e where "py_getitems ext [''next_steps'', fs, ar, pp] = Inl e"
    by blast
  with False show ?thesis
    by (simp add: get_standard_next_steps_def tier_total [OF next_steps_no_TypeError]
          del: py_getitems.simps)
next
  case True
  with assms have m: "mapping_along ext [''next_steps'', fs, ar, pp]" by simp
  then obtain kvs where ext: "ext = JDict kvs" by (cases ext) simp_all
  from m have nt: "py_getitems ext [''next_steps'', fs, ar, pp] \<noteq> Inl TypeError"
    by (rule mapping_along_getitems)
  show ?thesis
  proof (cases "map_of kvs ''next_steps''")
    case None
    with ext have "py_in ''next_steps'' ext = Inr False"
      and "py_getitems ext [''next_steps'', fs, ar, pp] = Inl KeyError"
      by simp_all
    with True show ?thesis
      by (simp add: get_standard_next_steps_def tier_total [OF next_steps_no_TypeError]
            del: py_getitems.simps)
  next
    case (Some t)
    with ext have "py_in ''next_steps'' ext = Inr True" by simp
    with True show ?thesis
      unfolding get_standard_next_steps_def Let_def tier_total [OF next_steps_no_TypeError]
      using nt
      by (cases "py_getitems ext [''next_steps'', fs, ar, pp]")
         (auto split: py_error.splits simp del: py_getitems.simps)
  qed
qed

lemma get_standard_strategies_nonempty:
  assumes "get_standard_strategies lt fs pg ext = Inr s"
    and "leaf_nonempty ext [''launch_strategies'', lt, fs, pg]"
  shows "nonempty_list s"
  using assms hardcoded_strategies_nonempty [of lt fs pg]
  unfolding get_standard_strategies_def Let_def tier_total [OF strategies_no_TypeError]
    leaf_nonempty_def
  by (auto split: if_splits sum.splits bool.splits py_error.splits simp del: py_getitems.simps)

lemma get_standard_next_steps_nonempty:
  assumes "get_standard_next_steps fs ar pp ext = Inr s"
    and "leaf_nonempty ext [''next_steps'', fs, ar, pp]"
  shows "nonempty_list s"
  using assms hardcoded_next_steps_nonempty [of fs ar pp]
  unfolding get_standard_next_steps_def Let_def tier_total [OF next_steps_no_TypeError]
    leaf_nonempty_def
  by (auto split: if_splits sum.splits bool.splits py_error.splits simp del: py_getitems.simps)

text \<open>
  C1. When the override data is a dict whose \<^verbatim>\<open>launch_strategies\<close> entry holds the
  three-level key path (launch type, funding status, primary goal), the resolver returns
  exactly the leaf found there, whatever the hardcoded table holds for the same keys.
\<close>

theorem C1_external_override_wins:
  assumes "external_strategies = JDict outer"
    and "map_of outer ''launch_strategies'' = Some (JDict by_type)"
    and "map_of by_type launch_type = Some (JDict by_funding)"
    and "map_of by_funding funding_status = Some (JDict by_goal)"
    and "map_of by_goal primary_goal = Some leaf"
  shows "get_standard_strategies launch_type funding_status primary_goal external_strategies
           = Inr leaf"
proof -
  from assms(1,2) have "outer \<noteq> []" by auto
  with assms show ?thesis
    by (simp add: get_standard_strategies_def)
qed

text \<open>
  An override for a key path that the hardcoded table also has: the override's leaf is
  returned, not the table's.
\<close>

theorem C1_external_override_wins_witness:
  "get_standard_strategies ''New Startup/Product Launch''
     ''Bootstrapping (No external funding)'' ''Get Users or Customers'' override_example
     = Inr (JList [JStr ''Ship the beta'']) \<and>
   py_getitems strategies [''New Startup/Product Launch'',
     ''Bootstrapping (No external funding)'', ''Get Users or Customers'']
     = Inr (JList
        [JStr ''Focus on founder-led storytelling through guest podcasts and social content'',
         JStr ''Create a limited beta program with exclusive perks to drive early adoption'',
         JStr ''Build direct relationships with early users for feedback and testimonials''])"
proof
  show "get_standard_strategies ''New Startup/Product Launch''
     ''Bootstrapping (No external funding)'' ''Get Users or Customers'' override_example
     = Inr (JList [JStr ''Ship the beta''])"
    using C1_external_override_wins [where external_strategies = override_example
        and outer = override_top and by_type = override_by_type
        and by_funding = override_by_funding and by_goal = override_by_goal
        and launch_type = "''New Startup/Product Launch''"
        and funding_status = "''Bootstrapping (No external funding)''"
        and primary_goal = "''Get Users or Customers''"
        and leaf = "JList [JStr ''Ship the beta'']"]
    by (simp add: override_example_def override_top_def override_by_type_def
          override_by_funding_def override_by_goal_def)
  show "py_getitems strategies [''New Startup/Product Launch'',
     ''Bootstrapping (No external funding)'', ''Get Users or Customers'']
     = Inr (JList
        [JStr ''Focus on founder-led storytelling through guest podcasts and social content'',
         JStr ''Create a limited beta program with exclusive perks to drive early adoption'',
         JStr ''Build direct relationships with early users for feedback and testimonials''])"
    by (simp add: strategies_def)
qed

text \<open>
  C2, amended. When the override data is falsy (\<^verbatim>\<open>None\<close>, an empty dict) or every value
  that the subscript chain reaches before its last key is a dict, neither resolver raises:
  each returns the override leaf if the whole path is there, else the leaf of the hardcoded
  table, else the default. A key missing at any level, the outermost included, falls
  through to the next tier.
\<close>

theorem C2_nested_mappings_never_raise:
  assumes "\<not> py_truthy external_strategies \<or>
           mapping_along external_strategies
             [''launch_strategies'', launch_type, funding_status, primary_goal]"
    and "\<not> py_truthy external_strategies \<or>
         mapping_along external_strategies
           [''next_steps'', funding_status, audience_readiness, post_launch_priority]"
  shows "get_standard_strategies launch_type funding_status primary_goal external_strategies =
           Inr (case py_getitems external_strategies
                       [''launch_strategies'', launch_type, funding_status, primary_goal] of
                  Inr leaf \<Rightarrow> leaf
                | Inl e \<Rightarrow>
                   (case py_getitems strategies [launch_type, funding_status, primary_goal] of
                      Inr leaf \<Rightarrow> leaf
                    | Inl e' \<Rightarrow> default_strategies)) \<and>
         get_standard_next_steps funding_status audience_readiness post_launch_priority
             external_strategies =
           Inr (case py_getitems external_strategies
                       [''next_steps'', funding_status, audience_readiness,
                        post_launch_priority] of
                  Inr leaf \<Rightarrow> leaf
                | Inl e \<Rightarrow>
                   (case py_getitems next_steps
                           [funding_status, audience_readiness, post_launch_priority] of
                      Inr leaf \<Rightarrow> leaf
                    | Inl e' \<Rightarrow> default_next_steps))"
  using get_standard_strategies_tiers [OF assms(1)] get_standard_next_steps_tiers [OF assms(2)]
  by (simp del: py_getitems.simps)

text \<open>
  A partial override: the primary goal is missing at the innermost level, so the hardcoded
  leaf is returned; \<^verbatim>\<open>next_steps\<close> is missing at the outermost level and the hardcoded
  table has no entry either, so the default is returned.
\<close>

theorem C2_nested_mappings_never_raise_witness:
  "mapping_along override_example
     [''launch_strategies'', ''New Startup/Product Launch'',
      ''Bootstrapping (No external funding)'', ''Build Press & Awareness''] \<and>
   mapping_along override_example
     [''next_steps'', ''Bootstrapping (No external funding)'',
      ''Not yet'', ''Scaling & repeatable traction''] \<and>
   get_standard_strategies ''New Startup/Product Launch''
     ''Bootstrapping (No external funding)'' ''Build Press & Awareness'' override_example =
     Inr (JList
        [JStr ''Craft a compelling founder story that ties to current trends'',
         JStr ''Pitch to industry-specific publications rather than mainstream media'',
         JStr ''Create shareable content that showcases your unique approach'']) \<and>
   get_standard_next_steps ''Bootstrapping (No external funding)'' ''Not yet''
     ''Scaling & repeatable traction'' override_example = Inr default_next_steps"
proof -
  have m1: "mapping_along override_example
     [''launch_strategies'', ''New Startup/Product Launch'',
      ''Bootstrapping (No external funding)'', ''Build Press & Awareness'']"
    by (simp add: override_example_def override_top_def override_by_type_def
          override_by_funding_def override_by_goal_def)
  have m2: "mapping_along override_example
     [''next_steps'', ''Bootstrapping (No external funding)'',
      ''Not yet'', ''Scaling & repeatable traction'']"
    by (simp add: override_example_def override_top_def)
  have e1: "py_getitems override_example
     [''launch_strategies'', ''New Startup/Product Launch'',
      ''Bootstrapping (No external funding)'', ''Build Press & Awareness''] = Inl KeyError"
    by (simp add: override_example_def override_top_def override_by_type_def
          override_by_funding_def override_by_goal_def)
  have e2: "py_getitems override_example
     [''next_steps'', ''Bootstrapping (No external funding)'',
      ''Not yet'', ''Scaling & repeatable traction''] = Inl KeyError"
    by (simp add: override_example_def override_top_def)
  have s1: "py_getitems strategies [''New Startup/Product Launch'',
      ''Bootstrapping (No external funding)'', ''Build Press & Awareness''] =
     Inr (JList
        [JStr ''Craft a compelling founder story that ties to current trends'',
         JStr ''Pitch to industry-specific publications rather than mainstream media'',
         JStr ''Create shareable content that showcases your unique approach''])"
    by (simp add: strategies_def)
  have s2: "py_getitems next_steps [''Bootstrapping (No external funding)'',
      ''Not yet'', ''Scaling & repeatable traction''] = Inl KeyError"
    by (simp add: next_steps_def)
  from C2_nested_mappings_never_raise [OF disjI2 [OF m1] disjI2 [OF m2]] m1 m2
  show ?thesis
    unfolding e1 e2 s1 s2 by simp
qed

text \<open>
  The claim as stated fails on an override whose table maps a launch type to a list:
  subscripting the list with the funding status raises \<^verbatim>\<open>TypeError\<close>, which the handler
  for \<^verbatim>\<open>KeyError\<close> does not catch.
\<close>

theorem C2_two_level_override_counterexample:
  "get_standard_strategies ''New Startup/Product Launch''
     ''Bootstrapping (No external funding)'' ''Get Users or Customers'' two_level_override
     = Inl TypeError"
  by (simp add: get_standard_strategies_def two_level_override_def)

text \<open>
  C3, amended. When the override data is falsy or every value that the subscript chain
  reaches before its last key is a dict, and neither the override data nor the hardcoded
  table holds a leaf at the key path, the resolver returns the fixed list of three generic
  strategies. In particular a brand repositioning with more than $3M raised resolves to
  that list without override data, for every primary goal.
\<close>

theorem C3_absent_in_nested_mappings_gives_default:
  "((\<not> py_truthy external_strategies \<or>
     mapping_along external_strategies
       [''launch_strategies'', launch_type, funding_status, primary_goal]) \<and>
    isl (py_getitems external_strategies
           [''launch_strategies'', launch_type, funding_status, primary_goal]) \<and>
    isl (py_getitems strategies [launch_type, funding_status, primary_goal])
    \<longrightarrow> get_standard_strategies launch_type funding_status primary_goal external_strategies
          = Inr default_strategies) \<and>
   get_standard_strategies ''Brand Repositioning (Rebrand or Pivot)'' ''Raised $3M+'' goal JNull
     = Inr default_strategies \<and>
   default_strategies = JList
     [JStr ''Create a compelling story that connects your mission to customer needs'',
      JStr ''Focus on 1-2 high-impact marketing channels that align with your resources'',
      JStr ''Build relationships with influencers and partners in your industry'']"
proof (intro conjI impI)
  assume a: "(\<not> py_truthy external_strategies \<or>
     mapping_along external_strategies
       [''launch_strategies'', launch_type, funding_status, primary_goal]) \<and>
    isl (py_getitems external_strategies
           [''launch_strategies'', launch_type, funding_status, primary_goal]) \<and>
    isl (py_getitems strategies [launch_type, funding_status, primary_goal])"
  then obtain e e' where
    "py_getitems external_strategies
       [''launch_strategies'', launch_type, funding_status, primary_goal] = Inl e"
    "py_getitems strategies [launch_type, funding_status, primary_goal] = Inl e'"
    by (auto simp: isl_def simp del: py_getitems.simps)
  moreover from a have "\<not> py_truthy external_strategies \<or>
     mapping_along external_strategies
       [''launch_strategies'', launch_type, funding_status, primary_goal]"
    by blast
  ultimately show "get_standard_strategies launch_type funding_status primary_goal
      external_strategies = Inr default_strategies"
    using get_standard_strategies_tiers [of external_strategies launch_type funding_status
        primary_goal]
    by (simp del: py_getitems.simps)
next
  have "py_getitems strategies
          [''Brand Repositioning (Rebrand or Pivot)'', ''Raised $3M+'', goal] = Inl KeyError"
    by (simp add: strategies_def)
  then show "get_standard_strategies ''Brand Repositioning (Rebrand or Pivot)''
               ''Raised $3M+'' goal JNull = Inr default_strategies"
    by (simp add: get_standard_strategies_def del: py_getitems.simps)
next
  show "default_strategies = JList
     [JStr ''Create a compelling story that connects your mission to customer needs'',
      JStr ''Focus on 1-2 high-impact marketing channels that align with your resources'',
      JStr ''Build relationships with influencers and partners in your industry'']"
    by (simp add: default_strategies_def)
qed

text \<open>
  The same combination with an override file of nested dicts that does not cover it.
\<close>

theorem C3_absent_in_nested_mappings_gives_default_witness:
  "mapping_along override_example
     [''launch_strategies'', ''Brand Repositioning (Rebrand or Pivot)'', ''Raised $3M+'',
      ''Attract Investors''] \<and>
   isl (py_getitems override_example
     [''launch_strategies'', ''Brand Repositioning (Rebrand or Pivot)'', ''Raised $3M+'',
      ''Attract Investors'']) \<and>
   isl (py_getitems strategies
     [''Brand Repositioning (Rebrand or Pivot)'', ''Raised $3M+'', ''Attract Investors'']) \<and>
   get_standard_strategies ''Brand Repositioning (Rebrand or Pivot)'' ''Raised $3M+''
     ''Attract Investors'' override_example = Inr default_strategies"
proof -
  have m: "mapping_along override_example
     [''launch_strategies'', ''Brand Repositioning (Rebrand or Pivot)'', ''Raised $3M+'',
      ''Attract Investors'']"
    by (simp add: override_example_def override_top_def override_by_type_def)
  have e: "isl (py_getitems override_example
     [''launch_strategies'', ''Brand Repositioning (Rebrand or Pivot)'', ''Raised $3M+'',
      ''Attract Investors''])"
    by (simp add: override_example_def override_top_def override_by_type_def)
  have s: "isl (py_getitems strategies
     [''Brand Repositioning (Rebrand or Pivot)'', ''Raised $3M+'', ''Attract Investors''])"
    by (simp add: strategies_def)
  from C3_absent_in_nested_mappings_gives_default [of override_example
      "''Brand Repositioning (Rebrand or Pivot)''" "''Raised $3M+''" "''Attract Investors''"]
    m e s
  show ?thesis by (simp del: py_getitems.simps)
qed

text \<open>
  The claim as stated fails on an override that maps the launch type to a list: neither
  the override nor the hardcoded table holds a leaf at the key path, yet the resolver does
  not return the default, since subscripting the list with the funding status raises
  \<^verbatim>\<open>TypeError\<close>.
\<close>

theorem C3_list_under_launch_type_counterexample:
  "isl (py_getitems list_under_type_override
     [''launch_strategies'', ''Brand Repositioning (Rebrand or Pivot)'', ''Raised $3M+'',
      ''Attract Investors'']) \<and>
   isl (py_getitems strategies
     [''Brand Repositioning (Rebrand or Pivot)'', ''Raised $3M+'', ''Attract Investors'']) \<and>
   get_standard_strategies ''Brand Repositioning (Rebrand or Pivot)'' ''Raised $3M+''
     ''Attract Investors'' list_under_type_override = Inl TypeError"
proof (intro conjI)
  show "isl (py_getitems list_under_type_override
     [''launch_strategies'', ''Brand Repositioning (Rebrand or Pivot)'', ''Raised $3M+'',
      ''Attract Investors''])"
    by (simp add: list_under_type_override_def)
  show "isl (py_getitems strategies
     [''Brand Repositioning (Rebrand or Pivot)'', ''Raised $3M+'', ''Attract Investors''])"
    by (simp add: strategies_def)
  show "get_standard_strategies ''Brand Repositioning (Rebrand or Pivot)'' ''Raised $3M+''
     ''Attract Investors'' list_under_type_override = Inl TypeError"
    by (simp add: get_standard_strategies_def list_under_type_override_def)
qed

text \<open>
  C8. Without override data, a bootstrapped new product launch that wants users or
  customers gets the three founder-led-storytelling strategies of the hardcoded table,
  in the order in which the table lists them.
\<close>

theorem C8_bootstrapped_new_product:
  "get_standard_strategies ''New Startup/Product Launch''
     ''Bootstrapping (No external funding)'' ''Get Users or Customers'' JNull
     = Inr (JList
        [JStr ''Focus on founder-led storytelling through guest podcasts and social content'',
         JStr ''Create a limited beta program with exclusive perks to drive early adoption'',
         JStr ''Build direct relationships with early users for feedback and testimonials''])"
  by (simp add: get_standard_strategies_def strategies_def)

section \<open>The enhancer and the assembled plan\<close>


lemma well_formed_list_nonempty: "well_formed_list v \<Longrightarrow> nonempty_list v"
  by (cases v) simp_all

lemma enhance_nonempty:
  "nonempty_list fallback \<Longrightarrow> nonempty_list (enhance well_formed_list outcome fallback)"
  by (cases outcome) (simp_all add: well_formed_list_nonempty)

lemma generate_launch_plan_Inr:
  assumes "get_standard_strategies (fd_launch_type fd) (fd_funding_status fd)
             (fd_primary_goal fd) ext = Inr s"
    and "get_standard_next_steps (fd_funding_status fd) (fd_audience_readiness fd)
             (fd_post_launch_priority fd) ext = Inr n"
  shows "\<exists>p. generate_launch_plan ai fd ext = Inr p \<and>
           plan_recommended_strategies p = generate_ai_strategies ai fd s \<and>
           plan_next_steps p = generate_ai_next_steps ai fd n"
  using assms by (simp add: generate_launch_plan_def Let_def)

lemma generate_launch_plan_InrD:
  assumes "generate_launch_plan ai fd ext = Inr p"
  shows "\<exists>s n. get_standard_strategies (fd_launch_type fd) (fd_funding_status fd)
             (fd_primary_goal fd) ext = Inr s \<and>
           get_standard_next_steps (fd_funding_status fd) (fd_audience_readiness fd)
             (fd_post_launch_priority fd) ext = Inr n \<and>
           plan_recommended_strategies p = generate_ai_strategies ai fd s \<and>
           plan_next_steps p = generate_ai_next_steps ai fd n"
  using assms
  by (auto simp: generate_launch_plan_def Let_def split: sum.splits)



text \<open>
  C5, amended. When the leaves that the override data holds at the two requested key
  paths, if any, are non-empty lists, every plan returned has non-empty recommended
  strategies and non-empty next steps; and a plan is returned whenever the override data
  is falsy or nested dicts along both paths. An override leaf is returned as it is.
\<close>

theorem C5_plan_lists_nonempty:
  assumes "leaf_nonempty external_strategies
             [''launch_strategies'', fd_launch_type form, fd_funding_status form,
              fd_primary_goal form]"
    and "leaf_nonempty external_strategies
           [''next_steps'', fd_funding_status form, fd_audience_readiness form,
            fd_post_launch_priority form]"
  shows "(\<forall>p. generate_launch_plan ai form external_strategies = Inr p \<longrightarrow>
            nonempty_list (plan_recommended_strategies p) \<and>
            nonempty_list (plan_next_steps p)) \<and>
         (\<not> py_truthy external_strategies \<or>
          mapping_along external_strategies
            [''launch_strategies'', fd_launch_type form, fd_funding_status form,
             fd_primary_goal form] \<and>
          mapping_along external_strategies
            [''next_steps'', fd_funding_status form, fd_audience_readiness form,
             fd_post_launch_priority form]
          \<longrightarrow> (\<exists>p. generate_launch_plan ai form external_strategies = Inr p))"
proof (intro conjI allI impI)
  fix p
  assume "generate_launch_plan ai form external_strategies = Inr p"
  from generate_launch_plan_InrD [OF this] obtain s n where
    s: "get_standard_strategies (fd_launch_type form) (fd_funding_status form)
          (fd_primary_goal form) external_strategies = Inr s"
    and n: "get_standard_next_steps (fd_funding_status form) (fd_audience_readiness form)
          (fd_post_launch_priority form) external_strategies = Inr n"
    and ps: "plan_recommended_strategies p = generate_ai_strategies ai form s"
    and pn: "plan_next_steps p = generate_ai_next_steps ai form n"
    by blast
  from get_standard_strategies_nonempty [OF s assms(1)] ps
  show "nonempty_list (plan_recommended_strategies p)"
    by (simp add: generate_ai_strategies_def enhance_nonempty)
  from get_standard_next_steps_nonempty [OF n assms(2)] pn
  show "nonempty_list (plan_next_steps p)"
    by (simp add: generate_ai_next_steps_def enhance_nonempty)
next
  assume m: "\<not> py_truthy external_strategies \<or>
          mapping_along external_strategies
            [''launch_strategies'', fd_launch_type form, fd_funding_status form,
             fd_primary_goal form] \<and>
          mapping_along external_strategies
            [''next_steps'', fd_funding_status form, fd_audience_readiness form,
             fd_post_launch_priority form]"
  then have "\<not> py_truthy external_strategies \<or>
          mapping_along external_strategies
            [''launch_strategies'', fd_launch_type form, fd_funding_status form,
             fd_primary_goal form]"
    and "\<not> py_truthy external_strategies \<or>
          mapping_along external_strategies
            [''next_steps'', fd_funding_status form, fd_audience_readiness form,
             fd_post_launch_priority form]"
    by blast+
  from get_standard_strategies_tiers [OF this(1)] get_standard_next_steps_tiers [OF this(2)]
  obtain s n where
    "get_standard_strategies (fd_launch_type form) (fd_funding_status form)
          (fd_primary_goal form) external_strategies = Inr s"
    "get_standard_next_steps (fd_funding_status form) (fd_audience_readiness form)
          (fd_post_launch_priority form) external_strategies = Inr n"
    by blast
  from generate_launch_plan_Inr [OF this]
  show "\<exists>p. generate_launch_plan ai form external_strategies = Inr p"
    by blast
qed

text \<open>
  An override leaf with one strategy, and no override for the next steps.
\<close>

theorem C5_plan_lists_nonempty_witness:
  "leaf_nonempty override_example
     [''launch_strategies'', fd_launch_type example_form, fd_funding_status example_form,
      fd_primary_goal example_form] \<and>
   leaf_nonempty override_example
     [''next_steps'', fd_funding_status example_form, fd_audience_readiness example_form,
      fd_post_launch_priority example_form] \<and>
   (\<exists>p. generate_launch_plan raising_ai example_form override_example = Inr p \<and>
        nonempty_list (plan_recommended_strategies p) \<and> nonempty_list (plan_next_steps p))"
proof -
  have l1: "leaf_nonempty override_example
     [''launch_strategies'', fd_launch_type example_form, fd_funding_status example_form,
      fd_primary_goal example_form]"
    by (simp add: leaf_nonempty_def example_form_def override_example_def override_top_def
          override_by_type_def override_by_funding_def override_by_goal_def)
  have l2: "leaf_nonempty override_example
     [''next_steps'', fd_funding_status example_form, fd_audience_readiness example_form,
      fd_post_launch_priority example_form]"
    by (simp add: leaf_nonempty_def example_form_def override_example_def override_top_def)
  have m1: "mapping_along override_example
     [''launch_strategies'', fd_launch_type example_form, fd_funding_status example_form,
      fd_primary_goal example_form]"
    by (simp add: example_form_def override_example_def override_top_def
          override_by_type_def override_by_funding_def override_by_goal_def)
  have m2: "mapping_along override_example
     [''next_steps'', fd_funding_status example_form, fd_audience_readiness example_form,
      fd_post_launch_priority example_form]"
    by (simp add: example_form_def override_example_def override_top_def)
  from C5_plan_lists_nonempty [OF l1 l2, of raising_ai] m1 m2 l1 l2
  show ?thesis by blast
qed

text \<open>
  The claim as stated fails on an override whose leaf is the empty list: with the
  generation service down, the plan's recommended strategies are that empty list.
\<close>

theorem C5_empty_external_leaf_counterexample:
  "map_sum id plan_recommended_strategies
     (generate_launch_plan raising_ai investor_form override_example) = Inr (JList [])"
  by (simp add: generate_launch_plan_def Let_def investor_form_def example_form_def
        get_standard_strategies_def get_standard_next_steps_def next_steps_def
        override_example_def override_top_def override_by_type_def
        override_by_funding_def override_by_goal_def
        generate_ai_strategies_def raising_ai_def)

section \<open>Milestones\<close>

lemma generate_milestone_suggestions_build:
  "generate_milestone_suggestions launch_type funding_status =
     build_milestones launch_type funding_status"
  by (simp add: generate_milestone_suggestions_def build_milestones_def base_sequence_def
        launch_type_rules_def funding_status_rules_def Let_def)

lemma select_by_substring_none:
  "\<forall>r\<in>set rules. \<not> py_str_in (fst r) label \<Longrightarrow> select_by_substring rules label = []"
  by (induction rules) auto

lemma select_by_substring_first:
  "i < length rules \<Longrightarrow> py_str_in (fst (rules ! i)) label \<Longrightarrow>
   \<forall>j<i. \<not> py_str_in (fst (rules ! j)) label \<Longrightarrow>
   select_by_substring rules label = snd (rules ! i)"
proof (induction rules arbitrary: i)
  case Nil
  then show ?case by simp
next
  case (Cons r rules)
  obtain marker ms where r: "r = (marker, ms)" by (cases r)
  show ?case
  proof (cases i)
    case 0
    with Cons.prems r show ?thesis by simp
  next
    case (Suc k)
    with Cons.prems(3) have "\<not> py_str_in (fst ((r # rules) ! 0)) label" by blast
    with r have no: "\<not> py_str_in marker label" by simp
    from Cons.prems Suc have "k < length rules" "py_str_in (fst (rules ! k)) label"
      by simp_all
    moreover have "\<forall>j<k. \<not> py_str_in (fst (rules ! j)) label"
    proof (intro allI impI)
      fix j assume "j < k"
      then have "Suc j < i" using Suc by simp
      with Cons.prems(3) have "\<not> py_str_in (fst ((r # rules) ! Suc j)) label" by blast
      then show "\<not> py_str_in (fst (rules ! j)) label" by simp
    qed
    ultimately have "select_by_substring rules label = snd (rules ! k)"
      by (rule Cons.IH)
    with r no Suc show ?thesis by simp
  qed
qed

lemma select_by_substring_one_set:
  "select_by_substring rules label = [] \<or> select_by_substring rules label \<in> snd ` set rules"
  by (induction rules) force+

text \<open>
  C6. For every launch type and funding status, the milestone list has at least four
  entries, and its first four are Messaging Validation, Content Creation Deadline,
  Launch Day and Post-Launch Analysis, in this order.
\<close>

theorem C6_base_milestones_first:
  "4 \<le> length (generate_milestone_suggestions launch_type funding_status) \<and>
   map name (take 4 (generate_milestone_suggestions launch_type funding_status)) =
     [''Messaging Validation'', ''Content Creation Deadline'', ''Launch Day'',
      ''Post-Launch Analysis'']"
  by (simp add: generate_milestone_suggestions_def Let_def)

text \<open>
  C7. The milestone list is the base sequence, then the milestones that the launch-type
  rules select by substring match, then those that the funding-status rules select, in
  this order and with nothing removed or moved. A label that contains no marker of its
  rule set adds nothing.
\<close>

theorem C7_milestones_are_concatenation:
  "generate_milestone_suggestions launch_type funding_status =
     base_sequence @ select_by_substring launch_type_rules launch_type
       @ select_by_substring funding_status_rules funding_status \<and>
   ((\<forall>r\<in>set launch_type_rules. \<not> py_str_in (fst r) launch_type) \<longrightarrow>
      generate_milestone_suggestions launch_type funding_status =
        base_sequence @ select_by_substring funding_status_rules funding_status) \<and>
   ((\<forall>r\<in>set funding_status_rules. \<not> py_str_in (fst r) funding_status) \<longrightarrow>
      generate_milestone_suggestions launch_type funding_status =
        base_sequence @ select_by_substring launch_type_rules launch_type) \<and>
   length (generate_milestone_suggestions launch_type funding_status) =
     length base_sequence + length (select_by_substring launch_type_rules launch_type)
       + length (select_by_substring funding_status_rules funding_status)"
  by (simp add: generate_milestone_suggestions_build build_milestones_def
        select_by_substring_none)

text \<open>
  A launch type and a funding status without any marker, and the same launch type with a
  funding band.
\<close>

theorem C7_milestones_are_concatenation_witness:
  "filter (\<lambda>r. py_str_in (fst r) ''Community Event'') launch_type_rules = [] \<and>
   filter (\<lambda>r. py_str_in (fst r) ''Grant funded'') funding_status_rules = [] \<and>
   generate_milestone_suggestions ''Community Event'' ''Grant funded'' = base_sequence \<and>
   map name (generate_milestone_suggestions ''Community Event'' ''Raised $1M-$3M'') =
     [''Messaging Validation'', ''Content Creation Deadline'', ''Launch Day'',
      ''Post-Launch Analysis'', ''PR Firm Briefing'', ''Media Outreach'']"
proof -
  have t: "\<forall>r\<in>set launch_type_rules. \<not> py_str_in (fst r) ''Community Event''"
    by (simp add: launch_type_rules_def)
  have f: "\<forall>r\<in>set funding_status_rules. \<not> py_str_in (fst r) ''Grant funded''"
    by (simp add: funding_status_rules_def)
  have s: "map name (select_by_substring funding_status_rules ''Raised $1M-$3M'') =
         [''PR Firm Briefing'', ''Media Outreach'']"
    by (simp add: funding_status_rules_def)
  have b: "map name base_sequence = [''Messaging Validation'', ''Content Creation Deadline'',
      ''Launch Day'', ''Post-Launch Analysis'']"
    by (simp add: base_sequence_def)
  from C7_milestones_are_concatenation [of "''Community Event''" "''Grant funded''"] t f
  have "generate_milestone_suggestions ''Community Event'' ''Grant funded'' = base_sequence"
    by (simp add: select_by_substring_none)
  moreover from C7_milestones_are_concatenation [of "''Community Event''" "''Raised $1M-$3M''"] t
  have "generate_milestone_suggestions ''Community Event'' ''Raised $1M-$3M'' =
        base_sequence @ select_by_substring funding_status_rules ''Raised $1M-$3M''"
    by blast
  moreover have "filter (\<lambda>r. py_str_in (fst r) ''Community Event'') launch_type_rules = []"
    using t by (simp add: filter_empty_conv)
  moreover have "filter (\<lambda>r. py_str_in (fst r) ''Grant funded'') funding_status_rules = []"
    using f by (simp add: filter_empty_conv)
  ultimately show ?thesis using s b by simp
qed

text \<open>
  C10. The list after the base sequence is at most one launch-type set followed by at
  most one funding-status set. The markers are tested in the order New Startup/Product
  Launch, Brand Repositioning, Funding Announcement, Partnership, and Bootstrapping,
  under $1M, $1M-$3M, $3M+; the first marker that occurs in the label decides the set.
\<close>

theorem C10_first_matching_category_only:
  "\<exists>T F. generate_milestone_suggestions launch_type funding_status = base_sequence @ T @ F \<and>
     (T = [] \<or> T \<in> snd ` set launch_type_rules) \<and>
     (F = [] \<or> F \<in> snd ` set funding_status_rules) \<and>
     (\<forall>i<length launch_type_rules.
        py_str_in (fst (launch_type_rules ! i)) launch_type \<and>
        (\<forall>j<i. \<not> py_str_in (fst (launch_type_rules ! j)) launch_type)
        \<longrightarrow> T = snd (launch_type_rules ! i)) \<and>
     (\<forall>i<length funding_status_rules.
        py_str_in (fst (funding_status_rules ! i)) funding_status \<and>
        (\<forall>j<i. \<not> py_str_in (fst (funding_status_rules ! j)) funding_status)
        \<longrightarrow> F = snd (funding_status_rules ! i)) \<and>
     map fst launch_type_rules =
       [''New Startup/Product Launch'', ''Brand Repositioning'', ''Funding Announcement'',
        ''Partnership''] \<and>
     map fst funding_status_rules = [''Bootstrapping'', ''under $1M'', ''$1M-$3M'', ''$3M+'']"
proof (intro exI conjI allI impI)
  show "generate_milestone_suggestions launch_type funding_status =
      base_sequence @ select_by_substring launch_type_rules launch_type
        @ select_by_substring funding_status_rules funding_status"
    by (simp add: generate_milestone_suggestions_build build_milestones_def)
  show "select_by_substring launch_type_rules launch_type = [] \<or>
      select_by_substring launch_type_rules launch_type \<in> snd ` set launch_type_rules"
    by (rule select_by_substring_one_set)
  show "select_by_substring funding_status_rules funding_status = [] \<or>
      select_by_substring funding_status_rules funding_status \<in> snd ` set funding_status_rules"
    by (rule select_by_substring_one_set)
  show "map fst launch_type_rules =
       [''New Startup/Product Launch'', ''Brand Repositioning'', ''Funding Announcement'',
        ''Partnership'']"
    by (simp add: launch_type_rules_def)
  show "map fst funding_status_rules = [''Bootstrapping'', ''under $1M'', ''$1M-$3M'', ''$3M+'']"
    by (simp add: funding_status_rules_def)
next
  fix i
  assume "i < length launch_type_rules"
    and "py_str_in (fst (launch_type_rules ! i)) launch_type \<and>
        (\<forall>j<i. \<not> py_str_in (fst (launch_type_rules ! j)) launch_type)"
  then show "select_by_substring launch_type_rules launch_type = snd (launch_type_rules ! i)"
    using select_by_substring_first [of i launch_type_rules launch_type] by blast
next
  fix i
  assume "i < length funding_status_rules"
    and "py_str_in (fst (funding_status_rules ! i)) funding_status \<and>
        (\<forall>j<i. \<not> py_str_in (fst (funding_status_rules ! j)) funding_status)"
  then show "select_by_substring funding_status_rules funding_status =
      snd (funding_status_rules ! i)"
    using select_by_substring_first [of i funding_status_rules funding_status] by blast
qed

text \<open>
  Labels with two markers each: the earlier marker of the order wins, not the one that
  comes first in the label.
\<close>

theorem C10_first_matching_category_only_witness:
  "py_str_in ''Partnership'' ''Partnership and Funding Announcement'' \<and>
   py_str_in ''Funding Announcement'' ''Partnership and Funding Announcement'' \<and>
   py_str_in ''$3M+'' ''Raised $3M+ after Bootstrapping'' \<and>
   py_str_in ''Bootstrapping'' ''Raised $3M+ after Bootstrapping'' \<and>
   map name (generate_milestone_suggestions ''Partnership and Funding Announcement''
     ''Raised $3M+ after Bootstrapping'') =
     [''Messaging Validation'', ''Content Creation Deadline'', ''Launch Day'',
      ''Post-Launch Analysis'', ''Press Release Draft'', ''Investor Coordination'',
      ''Resource Allocation'']"
proof -
  let ?lt = "''Partnership and Funding Announcement''"
  let ?fs = "''Raised $3M+ after Bootstrapping''"
  from C10_first_matching_category_only [of ?lt ?fs] obtain T F where
    eq: "generate_milestone_suggestions ?lt ?fs = base_sequence @ T @ F"
    and t: "\<forall>i<length launch_type_rules.
        py_str_in (fst (launch_type_rules ! i)) ?lt \<and>
        (\<forall>j<i. \<not> py_str_in (fst (launch_type_rules ! j)) ?lt)
        \<longrightarrow> T = snd (launch_type_rules ! i)"
    and f: "\<forall>i<length funding_status_rules.
        py_str_in (fst (funding_status_rules ! i)) ?fs \<and>
        (\<forall>j<i. \<not> py_str_in (fst (funding_status_rules ! j)) ?fs)
        \<longrightarrow> F = snd (funding_status_rules ! i)"
    by blast
  have p: "py_str_in ''Partnership'' ?lt" "py_str_in ''Funding Announcement'' ?lt"
    "py_str_in ''$3M+'' ?fs" "py_str_in ''Bootstrapping'' ?fs"
    by simp_all
  have n: "\<not> py_str_in ''New Startup/Product Launch'' ?lt" "\<not> py_str_in ''Brand Repositioning'' ?lt"
    by simp_all
  have "\<forall>j<2. \<not> py_str_in (fst (launch_type_rules ! j)) ?lt"
    using n by (simp add: launch_type_rules_def less_Suc_eq numeral_2_eq_2)
  moreover have "py_str_in (fst (launch_type_rules ! 2)) ?lt"
    using p(2) by (simp add: launch_type_rules_def del: py_str_in.simps)
  moreover have "(2::nat) < length launch_type_rules"
    by (simp add: launch_type_rules_def)
  ultimately have "T = snd (launch_type_rules ! 2)"
    using t by blast
  then have T: "map name T = [''Press Release Draft'', ''Investor Coordination'']"
    by (simp add: launch_type_rules_def)
  have "py_str_in (fst (funding_status_rules ! 0)) ?fs"
    using p(4) by (simp add: funding_status_rules_def del: py_str_in.simps)
  moreover have "(0::nat) < length funding_status_rules"
    by (simp add: funding_status_rules_def)
  ultimately have "F = snd (funding_status_rules ! 0)"
    using f by blast
  then have F: "map name F = [''Resource Allocation'']"
    by (simp add: funding_status_rules_def)
  have "map name base_sequence = [''Messaging Validation'', ''Content Creation Deadline'',
      ''Launch Day'', ''Post-Launch Analysis'']"
    by (simp add: base_sequence_def)
  with eq T F p show ?thesis by (simp del: py_str_in.simps)
qed

end
